theory Spec2Isabelle
  imports Main
begin

section \<open>asyncio on a logical clock\<close>

text \<open>
  \<^verbatim>\<open>langgraph_demo.py\<close> runs two coroutines as asyncio tasks and coordinates them
  with \<^verbatim>\<open>create_task\<close>, \<^verbatim>\<open>await\<close> and \<^verbatim>\<open>Task.cancel\<close>. Time is a natural number
  of ticks counted from the call of the node; the event loop is single threaded, so a
  task only changes state at its suspension points.
\<close>

subsection \<open>Exceptions and completions\<close>

text \<open>
  The exceptions the node can meet: \<^verbatim>\<open>asyncio.CancelledError\<close>, the \<^verbatim>\<open>IndexError\<close>
  of an out-of-range subscript, and any other exception a collaborator raises
  (carrying its message).
\<close>

datatype exn = CancelledError | IndexError | Exception string

text \<open>How a coroutine or a task ends: with a value, or with an exception.\<close>

datatype 'a completion = Returns 'a | Raises exn

subsection \<open>Coroutines\<close>

text \<open>
  A coroutine body, as far as the event loop can observe it:
  \<^item> \<open>Return v\<close> is \<^verbatim>\<open>return v\<close>, \<open>Raise e\<close> is \<^verbatim>\<open>raise e\<close>;
  \<^item> \<open>Sleep d k h\<close> is \<^verbatim>\<open>await asyncio.sleep(d)\<close> followed by \<open>k\<close>; when the task
    is cancelled while it sleeps, \<^verbatim>\<open>CancelledError\<close> is thrown in at the \<^verbatim>\<open>await\<close>
    and the body continues with \<open>h\<close>. A body with no \<^verbatim>\<open>try\<close> around the await has
    \<open>h = Raise CancelledError\<close>;
  \<^item> \<open>Stall h\<close> awaits something that never completes; only a cancellation resumes
    it, with \<open>h\<close>.
\<close>

datatype 'a coro =
    Return 'a
  | Raise exn
  | Sleep nat "'a coro" "'a coro"
  | Stall "'a coro"

text \<open>
  \<open>run_coro now c body\<close>: the body is resumed at time \<open>now\<close>; \<open>c\<close> is the time of a
  cancellation request not yet delivered. The result is the time and the way the body
  ends, or \<open>None\<close> when it never ends. A request is delivered once, at the suspension
  the task is waiting at when the request is made. Within one tick the event loop runs
  the steps in the order it queued them: a task whose sleep expires at the tick of the
  request is resumed first and runs up to its next \<^verbatim>\<open>await\<close> before the requesting
  coroutine runs. So a sleep that expires at that tick is passed, and the next
  suspension the body reaches, even \<^verbatim>\<open>asyncio.sleep(0)\<close>, receives the request; a body
  that ends without another suspension has ended before the request.
\<close>

fun run_coro :: "nat \<Rightarrow> nat option \<Rightarrow> 'a coro \<Rightarrow> (nat \<times> 'a completion) option" where
  "run_coro now c (Return v) = Some (now, Returns v)"
| "run_coro now c (Raise e) = Some (now, Raises e)"
| "run_coro now c (Sleep d k h) =
     (case c of
        None \<Rightarrow> run_coro (now + d) None k
      | Some tc \<Rightarrow>
          if tc \<le> now \<or> tc < now + d then run_coro (max now tc) None h
          else run_coro (now + d) c k)"
| "run_coro now c (Stall h) =
     (case c of
        None \<Rightarrow> None
      | Some tc \<Rightarrow> run_coro (max now tc) None h)"

subsection \<open>Tasks\<close>

text \<open>
  An \<^verbatim>\<open>asyncio.Task\<close>: the coroutine it wraps, the time \<^verbatim>\<open>create_task\<close> scheduled it,
  and the time of the \<^verbatim>\<open>cancel()\<close> call made on it, if any.
\<close>

record 'a task =
  body :: "'a coro"
  started :: nat
  cancel_at :: "nat option"

definition create_task :: "nat \<Rightarrow> 'a coro \<Rightarrow> 'a task" where
  "create_task now c = \<lparr>body = c, started = now, cancel_at = None\<rparr>"

text \<open>When and how the task reaches a terminal state; \<open>None\<close> when it never does.\<close>

definition fate :: "'a task \<Rightarrow> (nat \<times> 'a completion) option" where
  "fate t = run_coro (started t) (cancel_at t) (body t)"

text \<open>
  \<^verbatim>\<open>Task.done()\<close> once tick \<open>now\<close> has been worked off: the task has finished, failed or
  been cancelled by then.
\<close>

definition done_at :: "nat \<Rightarrow> 'a task \<Rightarrow> bool" where
  "done_at now t = (case fate t of None \<Rightarrow> False | Some (te, _) \<Rightarrow> te \<le> now)"

text \<open>
  \<^verbatim>\<open>Task.cancel()\<close> at time \<open>now\<close>: the call is recorded on the task, and \<open>run_coro\<close>
  throws \<^verbatim>\<open>CancelledError\<close> in at the suspension the task is waiting at. A task that
  has ended is waiting at none, so the call does not change how it ended (lemmas
  \<open>cancel_after_end\<close> and \<open>cancel_at_end\<close> below).
\<close>

definition cancel :: "nat \<Rightarrow> 'a task \<Rightarrow> 'a task" where
  "cancel now t = t\<lparr>cancel_at := Some now\<rparr>"

text \<open>
  \<^verbatim>\<open>await task\<close> at time \<open>now\<close>: the awaiting coroutine resumes when the task is done
  (at once if it already is) with the task's completion; it never resumes when the
  task never ends.
\<close>

definition await :: "nat \<Rightarrow> 'a task \<Rightarrow> (nat \<times> 'a completion) option" where
  "await now t = (case fate t of None \<Rightarrow> None | Some (te, c) \<Rightarrow> Some (max now te, c))"

section \<open>The data of \<^verbatim>\<open>langgraph_demo.py\<close>\<close>

text \<open>
  Messages are objects with a \<^verbatim>\<open>content\<close> string; every element of a message list is
  one, as in the lists the module itself builds. A Python list is a mutable object:
  the state holds a reference to it, and the heap maps references to list contents.
  \<^verbatim>\<open>xs + ys\<close> allocates a new list; \<open>alloc\<close> returns its reference. A reference
  \<open>a\<close> is valid in a heap \<open>h\<close> when \<open>a < length h\<close>.
\<close>

datatype message = HumanMessage (content: string) | AIMessage (content: string)

type_synonym addr = nat

type_synonym heap = "message list list"

definition alloc :: "heap \<Rightarrow> message list \<Rightarrow> addr \<times> heap" where
  "alloc h xs = (length h, h @ [xs])"

text \<open>\<^verbatim>\<open>xs[-1]\<close>: the last element, \<^verbatim>\<open>IndexError\<close> on an empty list.\<close>

definition getitem_last :: "'a list \<Rightarrow> exn + 'a" where
  "getitem_last xs = (if xs = [] then Inl IndexError else Inr (last xs))"

text \<open>\<^verbatim>\<open>class State(TypedDict)\<close>\<close>

record State =
  messages :: addr
  guardrail_passed :: bool
  error :: "string option"

section \<open>The collaborators as shipped\<close>

text \<open>
  \<^verbatim>\<open>check_guardrail\<close>: sleeps one second, then returns \<^verbatim>\<open>False\<close> when
  \<^verbatim>\<open>violation_detected\<close> (hard-wired to \<^verbatim>\<open>True\<close>) and \<^verbatim>\<open>True\<close> otherwise. It has no
  \<^verbatim>\<open>try\<close>, so a cancellation propagates.
\<close>

definition check_guardrail :: "string \<Rightarrow> bool coro" where
  "check_guardrail user_message =
     Sleep 1
       (let violation_detected = True in
        if violation_detected then Return False else Return True)
       (Raise CancelledError)"

text \<open>
  \<^verbatim>\<open>generate_llm_response\<close>: sleeps thirty seconds and returns the response; its
  \<^verbatim>\<open>except asyncio.CancelledError\<close> prints and re-raises.
\<close>

definition generate_llm_response :: "message list \<Rightarrow> string coro" where
  "generate_llm_response msgs =
     Sleep 30
       (Return ''AI Response: Here is a detailed answer...'')
       (Raise CancelledError)"

section \<open>The coordinator\<close>

text \<open>
  What one call of the node leaves behind: how it ended (\<open>None\<close>: it never returned),
  the clock when it ended (or last ran), the two task handles, and the heap.
\<close>

record run =
  result :: "State completion option"
  clock :: nat
  guardrail_task :: "bool task option"
  llm_task :: "string task option"
  final_heap :: heap

text \<open>
  \<^verbatim>\<open>parallel_guardrail_node\<close>, with the two coroutine functions it calls taken as
  parameters \<open>check\<close> and \<open>generate\<close>, so that the coordination can be studied for
  every guard and every producer. The collaborators read the request and do not write
  the list they are given. The \<^verbatim>\<open>print\<close> calls have no effect on the result and are
  left out. The local names \<open>gtask\<close>, \<open>ltask\<close> and \<open>passed\<close> stand for
  \<^verbatim>\<open>guardrail_task\<close>, \<^verbatim>\<open>llm_task\<close> and \<^verbatim>\<open>guardrail_passed\<close>, which are field names
  here. An exception that the source does not catch ends the node with \<open>Raises\<close>.
\<close>

definition parallel_guardrail_node_with ::
  "(string \<Rightarrow> bool coro) \<Rightarrow> (message list \<Rightarrow> string coro) \<Rightarrow> heap \<Rightarrow> State \<Rightarrow> run" where
  "parallel_guardrail_node_with check generate h state =
     (let msgs = h ! messages state in
      case (if msgs \<noteq> [] then map_sum id content (getitem_last msgs) else Inr '''') of
        Inl e \<Rightarrow>
          \<lparr>result = Some (Raises e), clock = 0,
           guardrail_task = None, llm_task = None, final_heap = h\<rparr>
      | Inr user_message \<Rightarrow>
          (let gtask = create_task 0 (check user_message);
               ltask = create_task 0 (generate msgs)
           in case await 0 gtask of
                None \<Rightarrow>
                  \<lparr>result = None, clock = 0,
                   guardrail_task = Some gtask, llm_task = Some ltask, final_heap = h\<rparr>
              | Some (t1, Raises e) \<Rightarrow>
                  \<lparr>result = Some (Raises e), clock = t1,
                   guardrail_task = Some gtask, llm_task = Some ltask, final_heap = h\<rparr>
              | Some (t1, Returns passed) \<Rightarrow>
                  if \<not> passed then
                    (let ltask = cancel t1 ltask in
                     case await t1 ltask of
                       None \<Rightarrow>
                         \<lparr>result = None, clock = t1,
                          guardrail_task = Some gtask, llm_task = Some ltask, final_heap = h\<rparr>
                     | Some (t2, Raises e) \<Rightarrow>
                         if e = CancelledError then
                           \<lparr>result = Some (Returns
                              \<lparr>messages = messages state,
                               guardrail_passed = False,
                               error = Some ''Request blocked due to content policy violation''\<rparr>),
                            clock = t2,
                            guardrail_task = Some gtask, llm_task = Some ltask, final_heap = h\<rparr>
                         else
                           \<lparr>result = Some (Raises e), clock = t2,
                            guardrail_task = Some gtask, llm_task = Some ltask, final_heap = h\<rparr>
                     | Some (t2, Returns _) \<Rightarrow>
                         \<lparr>result = Some (Returns
                            \<lparr>messages = messages state,
                             guardrail_passed = False,
                             error = Some ''Request blocked due to content policy violation''\<rparr>),
                          clock = t2,
                          guardrail_task = Some gtask, llm_task = Some ltask, final_heap = h\<rparr>)
                  else
                    (case await t1 ltask of
                       None \<Rightarrow>
                         \<lparr>result = None, clock = t1,
                          guardrail_task = Some gtask, llm_task = Some ltask, final_heap = h\<rparr>
                     | Some (t2, Raises e) \<Rightarrow>
                         \<lparr>result = Some (Raises e), clock = t2,
                          guardrail_task = Some gtask, llm_task = Some ltask, final_heap = h\<rparr>
                     | Some (t2, Returns llm_response) \<Rightarrow>
                         (let (a, h') = alloc h (msgs @ [HumanMessage llm_response]) in
                          \<lparr>result = Some (Returns
                             \<lparr>messages = a, guardrail_passed = True, error = None\<rparr>),
                           clock = t2,
                           guardrail_task = Some gtask, llm_task = Some ltask,
                           final_heap = h'\<rparr>))))"

text \<open>The node as shipped: it calls the module's own two coroutine functions.\<close>

definition parallel_guardrail_node :: "heap \<Rightarrow> State \<Rightarrow> run" where
  "parallel_guardrail_node = parallel_guardrail_node_with check_guardrail generate_llm_response"

text \<open>
  The compiled graph has the single node between \<^verbatim>\<open>START\<close> and \<^verbatim>\<open>END\<close>, and the node
  returns all three keys of the state, so \<^verbatim>\<open>app.ainvoke\<close> ends as the node does.
\<close>

definition app_ainvoke :: "heap \<Rightarrow> State \<Rightarrow> run" where
  "app_ainvoke h input = parallel_guardrail_node h input"

text \<open>
  Modelled from the spec: the \<^verbatim>\<open>options\<close> of the spec's \<^verbatim>\<open>run\<close> operation, with its two
  recognised fields, an optional upper bound on the guard's latency and an optional
  cap on the producer. The module declares no such type.
\<close>

record options =
  guard_timeout :: "nat option"
  producer_timeout :: "nat option"

text \<open>
  Modelled from the spec: a task exceeds a configured bound when it has not ended by
  that time; no bound is exceeded when none is configured.
\<close>

definition exceeds :: "(nat \<times> 'a completion) option \<Rightarrow> nat option \<Rightarrow> bool" where
  "exceeds f bound =
     (case bound of
        None \<Rightarrow> False
      | Some b \<Rightarrow> (case f of None \<Rightarrow> True | Some (te, _) \<Rightarrow> b < te))"

text \<open>
  The spec's \<^verbatim>\<open>run(request, guard, producer, options)\<close> as the module provides it: the
  coordinator is \<^verbatim>\<open>parallel_guardrail_node\<close>, whose only parameter is the state (line
  54), so the options a caller has configured are not passed on to it.
\<close>

definition coordinator_run ::
  "options \<Rightarrow> (string \<Rightarrow> bool coro) \<Rightarrow> (message list \<Rightarrow> string coro) \<Rightarrow> heap \<Rightarrow> State \<Rightarrow> run" where
  "coordinator_run opts check generate h state =
     parallel_guardrail_node_with check generate h state"

section \<open>Notions used to state the properties\<close>

text \<open>
  The value line 64 gives \<^verbatim>\<open>user_message\<close>: the content of the last message, the
  empty string for an empty list.
\<close>

definition user_message_of :: "message list \<Rightarrow> string" where
  "user_message_of msgs = (if msgs \<noteq> [] then content (last msgs) else '''')"

text \<open>The dictionary the rejection branch returns (lines 84 to 88).\<close>

definition blocked :: "State \<Rightarrow> State" where
  "blocked state =
     \<lparr>messages = messages state, guardrail_passed = False,
      error = Some ''Request blocked due to content policy violation''\<rparr>"

text \<open>
  The producer's artifact is observable in a run when the node returned a state whose
  message list is the request's list extended by that artifact.
\<close>

definition exposes :: "heap \<Rightarrow> State \<Rightarrow> run \<Rightarrow> string \<Rightarrow> bool" where
  "exposes h state r artifact =
     (case result r of
        Some (Returns s) \<Rightarrow>
          final_heap r ! messages s = h ! messages state @ [HumanMessage artifact]
      | _ \<Rightarrow> False)"

section \<open>Other collaborators, for concrete runs\<close>

text \<open>
  \<^verbatim>\<open>check_guardrail\<close> with \<^verbatim>\<open>violation_detected = False\<close>, the passing scenario the
  source's comment describes.
\<close>

definition check_guardrail_passing :: "string \<Rightarrow> bool coro" where
  "check_guardrail_passing user_message =
     Sleep 1
       (let violation_detected = False in
        if violation_detected then Return False else Return True)
       (Raise CancelledError)"

text \<open>A guard whose evaluator raises after a second; one that passes very late.\<close>

definition check_guardrail_failing :: "string \<Rightarrow> bool coro" where
  "check_guardrail_failing user_message =
     Sleep 1 (Raise (Exception ''policy service unavailable'')) (Raise CancelledError)"

definition check_guardrail_slow :: "string \<Rightarrow> bool coro" where
  "check_guardrail_slow user_message = Sleep 1000000 (Return True) (Raise CancelledError)"

text \<open>A guard that never answers.\<close>

definition check_guardrail_stalled :: "string \<Rightarrow> bool coro" where
  "check_guardrail_stalled user_message = Stall (Raise CancelledError)"

text \<open>
  Producers: one that answers after two seconds, one that fails at its first step,
  and one that catches the cancellation and still returns an answer two seconds later.
\<close>

definition generate_quickly :: "message list \<Rightarrow> string coro" where
  "generate_quickly msgs = Sleep 2 (Return ''ok'') (Raise CancelledError)"

definition generate_failing :: "message list \<Rightarrow> string coro" where
  "generate_failing msgs = Raise (Exception ''model unavailable'')"

definition generate_ignoring_cancel :: "message list \<Rightarrow> string coro" where
  "generate_ignoring_cancel msgs =
     Sleep 30 (Return ''late answer'')
       (Sleep 2 (Return ''late answer'') (Raise CancelledError))"

text \<open>A request holding the one message \<open>X\<close>, and a request with no message.\<close>

definition heap_X :: heap where
  "heap_X = [[HumanMessage ''X'']]"

definition request_X :: State where
  "request_X = \<lparr>messages = 0, guardrail_passed = False, error = None\<rparr>"

definition heap_empty :: heap where
  "heap_empty = [[]]"


text \<open>Options with both timeouts configured, at five ticks.\<close>

definition options_X :: options where
  "options_X = \<lparr>guard_timeout = Some 5, producer_timeout = Some 5\<rparr>"

section \<open>The ways the node can end\<close>

text \<open>
  The subscript of line 64 is guarded by the truth test on the list, so it never
  raises, and the first \<^verbatim>\<open>await\<close> starts at time 0.
\<close>

lemma user_message_total:
  "(if msgs \<noteq> [] then map_sum id content (getitem_last msgs) else Inr '''') =
   Inr (user_message_of msgs)"
  by (simp add: getitem_last_def user_message_of_def)

lemma await_fresh: "await 0 t = fate t"
  by (simp add: await_def split: option.splits)

lemmas node_unfold =
  parallel_guardrail_node_with_def Let_def user_message_total sum.case await_fresh
  option.case prod.case completion.case blocked_def [symmetric]

text \<open>
  One lemma for each path through the node: which results of the two awaits select
  the path, and the run it leaves behind.
\<close>

lemma node_guard_pending:
  assumes "fate (create_task 0 (check (user_message_of (h ! messages state)))) = None"
  shows "parallel_guardrail_node_with check generate h state =
     \<lparr>result = None, clock = 0,
      guardrail_task = Some (create_task 0 (check (user_message_of (h ! messages state)))),
      llm_task = Some (create_task 0 (generate (h ! messages state))), final_heap = h\<rparr>"
  by (simp only: node_unfold assms)

lemma node_guard_raised:
  assumes "fate (create_task 0 (check (user_message_of (h ! messages state)))) = Some (t1, Raises e)"
  shows "parallel_guardrail_node_with check generate h state =
     \<lparr>result = Some (Raises e), clock = t1,
      guardrail_task = Some (create_task 0 (check (user_message_of (h ! messages state)))),
      llm_task = Some (create_task 0 (generate (h ! messages state))), final_heap = h\<rparr>"
  by (simp only: node_unfold assms)

lemma node_rejected_pending:
  assumes "fate (create_task 0 (check (user_message_of (h ! messages state)))) = Some (t1, Returns False)"
    and "await t1 (cancel t1 (create_task 0 (generate (h ! messages state)))) = None"
  shows "parallel_guardrail_node_with check generate h state =
     \<lparr>result = None, clock = t1,
      guardrail_task = Some (create_task 0 (check (user_message_of (h ! messages state)))),
      llm_task = Some (cancel t1 (create_task 0 (generate (h ! messages state)))), final_heap = h\<rparr>"
  by (simp only: node_unfold assms not_False_eq_True if_True)

lemma node_rejected_cancelled:
  assumes "fate (create_task 0 (check (user_message_of (h ! messages state)))) = Some (t1, Returns False)"
    and "await t1 (cancel t1 (create_task 0 (generate (h ! messages state)))) = Some (t2, Raises CancelledError)"
  shows "parallel_guardrail_node_with check generate h state =
     \<lparr>result = Some (Returns (blocked state)), clock = t2,
      guardrail_task = Some (create_task 0 (check (user_message_of (h ! messages state)))),
      llm_task = Some (cancel t1 (create_task 0 (generate (h ! messages state)))), final_heap = h\<rparr>"
  by (simp only: node_unfold assms not_False_eq_True if_True simp_thms)

lemma node_rejected_raised:
  assumes "fate (create_task 0 (check (user_message_of (h ! messages state)))) = Some (t1, Returns False)"
    and "await t1 (cancel t1 (create_task 0 (generate (h ! messages state)))) = Some (t2, Raises e)"
    and "e \<noteq> CancelledError"
  shows "parallel_guardrail_node_with check generate h state =
     \<lparr>result = Some (Raises e), clock = t2,
      guardrail_task = Some (create_task 0 (check (user_message_of (h ! messages state)))),
      llm_task = Some (cancel t1 (create_task 0 (generate (h ! messages state)))), final_heap = h\<rparr>"
  by (simp only: node_unfold assms not_False_eq_True if_True if_False)

lemma node_rejected_returned:
  assumes "fate (create_task 0 (check (user_message_of (h ! messages state)))) = Some (t1, Returns False)"
    and "await t1 (cancel t1 (create_task 0 (generate (h ! messages state)))) = Some (t2, Returns a)"
  shows "parallel_guardrail_node_with check generate h state =
     \<lparr>result = Some (Returns (blocked state)), clock = t2,
      guardrail_task = Some (create_task 0 (check (user_message_of (h ! messages state)))),
      llm_task = Some (cancel t1 (create_task 0 (generate (h ! messages state)))), final_heap = h\<rparr>"
  by (simp only: node_unfold assms not_False_eq_True if_True)

lemma node_accepted_pending:
  assumes "fate (create_task 0 (check (user_message_of (h ! messages state)))) = Some (t1, Returns True)"
    and "await t1 (create_task 0 (generate (h ! messages state))) = None"
  shows "parallel_guardrail_node_with check generate h state =
     \<lparr>result = None, clock = t1,
      guardrail_task = Some (create_task 0 (check (user_message_of (h ! messages state)))),
      llm_task = Some (create_task 0 (generate (h ! messages state))), final_heap = h\<rparr>"
  by (simp only: node_unfold assms not_True_eq_False if_False)

lemma node_accepted_raised:
  assumes "fate (create_task 0 (check (user_message_of (h ! messages state)))) = Some (t1, Returns True)"
    and "await t1 (create_task 0 (generate (h ! messages state))) = Some (t2, Raises e)"
  shows "parallel_guardrail_node_with check generate h state =
     \<lparr>result = Some (Raises e), clock = t2,
      guardrail_task = Some (create_task 0 (check (user_message_of (h ! messages state)))),
      llm_task = Some (create_task 0 (generate (h ! messages state))), final_heap = h\<rparr>"
  by (simp only: node_unfold assms not_True_eq_False if_False)

lemma node_accepted_returned:
  assumes "fate (create_task 0 (check (user_message_of (h ! messages state)))) = Some (t1, Returns True)"
    and "await t1 (create_task 0 (generate (h ! messages state))) = Some (t2, Returns a)"
  shows "parallel_guardrail_node_with check generate h state =
     \<lparr>result = Some (Returns \<lparr>messages = length h, guardrail_passed = True, error = None\<rparr>),
      clock = t2,
      guardrail_task = Some (create_task 0 (check (user_message_of (h ! messages state)))),
      llm_task = Some (create_task 0 (generate (h ! messages state))),
      final_heap = h @ [h ! messages state @ [HumanMessage a]]\<rparr>"
  by (simp only: node_unfold assms not_True_eq_False if_False alloc_def)


text \<open>
  Every run follows exactly one of the nine paths. The case rule names the fate of the
  guard's task and of the producer's task (after the cancellation request, on the
  rejection branch) that select each path.
\<close>

lemma await_None: "fate t = None \<Longrightarrow> await now t = None"
  by (simp add: await_def)

lemma await_Some: "fate t = Some (te, c) \<Longrightarrow> await now t = Some (max now te, c)"
  by (simp add: await_def)

lemma node_cases [case_names guard_pending guard_raised rejected_pending rejected_cancelled
    rejected_raised rejected_returned accepted_pending accepted_raised accepted_returned]:
  fixes check generate h state
  defines "g \<equiv> create_task 0 (check (user_message_of (h ! messages state)))"
  defines "l \<equiv> create_task 0 (generate (h ! messages state))"
  defines "r \<equiv> parallel_guardrail_node_with check generate h state"
  obtains
    "fate g = None"
    "r = \<lparr>result = None, clock = 0, guardrail_task = Some g, llm_task = Some l, final_heap = h\<rparr>"
  | t1 e where "fate g = Some (t1, Raises e)"
    "r = \<lparr>result = Some (Raises e), clock = t1, guardrail_task = Some g, llm_task = Some l,
          final_heap = h\<rparr>"
  | t1 where "fate g = Some (t1, Returns False)" "fate (cancel t1 l) = None"
    "r = \<lparr>result = None, clock = t1, guardrail_task = Some g, llm_task = Some (cancel t1 l),
          final_heap = h\<rparr>"
  | t1 te where "fate g = Some (t1, Returns False)"
    "fate (cancel t1 l) = Some (te, Raises CancelledError)"
    "r = \<lparr>result = Some (Returns (blocked state)), clock = max t1 te, guardrail_task = Some g,
          llm_task = Some (cancel t1 l), final_heap = h\<rparr>"
  | t1 te e where "fate g = Some (t1, Returns False)"
    "fate (cancel t1 l) = Some (te, Raises e)" "e \<noteq> CancelledError"
    "r = \<lparr>result = Some (Raises e), clock = max t1 te, guardrail_task = Some g,
          llm_task = Some (cancel t1 l), final_heap = h\<rparr>"
  | t1 te a where "fate g = Some (t1, Returns False)"
    "fate (cancel t1 l) = Some (te, Returns a)"
    "r = \<lparr>result = Some (Returns (blocked state)), clock = max t1 te, guardrail_task = Some g,
          llm_task = Some (cancel t1 l), final_heap = h\<rparr>"
  | t1 where "fate g = Some (t1, Returns True)" "fate l = None"
    "r = \<lparr>result = None, clock = t1, guardrail_task = Some g, llm_task = Some l,
          final_heap = h\<rparr>"
  | t1 te e where "fate g = Some (t1, Returns True)" "fate l = Some (te, Raises e)"
    "r = \<lparr>result = Some (Raises e), clock = max t1 te, guardrail_task = Some g,
          llm_task = Some l, final_heap = h\<rparr>"
  | t1 te a where "fate g = Some (t1, Returns True)" "fate l = Some (te, Returns a)"
    "r = \<lparr>result = Some (Returns \<lparr>messages = length h, guardrail_passed = True, error = None\<rparr>),
          clock = max t1 te, guardrail_task = Some g, llm_task = Some l,
          final_heap = h @ [h ! messages state @ [HumanMessage a]]\<rparr>"
proof (cases "fate g")
  case None
  have "r = \<lparr>result = None, clock = 0, guardrail_task = Some g, llm_task = Some l,
      final_heap = h\<rparr>"
    unfolding r_def g_def l_def by (rule node_guard_pending [where check = check and generate = generate and h = h and state = state, OF None [unfolded g_def]])
  with None show ?thesis by (rule that(1))
next
  case (Some p)
  obtain t1 c where p: "p = (t1, c)" by (cases p)
  show ?thesis
  proof (cases c)
    case (Raises e)
    with Some p have fg: "fate g = Some (t1, Raises e)" by simp
    have "r = \<lparr>result = Some (Raises e), clock = t1, guardrail_task = Some g,
        llm_task = Some l, final_heap = h\<rparr>"
      unfolding r_def g_def l_def by (rule node_guard_raised [where check = check and generate = generate and h = h and state = state, OF fg [unfolded g_def]])
    with fg show ?thesis by (rule that(2))
  next
    case (Returns passed)
    show ?thesis
    proof (cases passed)
      case False
      with Some p Returns have fg: "fate g = Some (t1, Returns False)" by simp
      show ?thesis
      proof (cases "fate (cancel t1 l)")
        case None
        note aw = await_None [OF None, of t1]
        have "r = \<lparr>result = None, clock = t1, guardrail_task = Some g,
            llm_task = Some (cancel t1 l), final_heap = h\<rparr>"
          unfolding r_def g_def l_def
          by (rule node_rejected_pending [where check = check and generate = generate and h = h and state = state, OF fg [unfolded g_def] aw [unfolded l_def]])
        with fg None show ?thesis by (rule that(3))
      next
        case (Some q)
        obtain te d where q: "q = (te, d)" by (cases q)
        show ?thesis
        proof (cases d)
          case (Returns a)
          with Some q have fl: "fate (cancel t1 l) = Some (te, Returns a)" by simp
          note aw = await_Some [OF fl, of t1]
          have "r = \<lparr>result = Some (Returns (blocked state)), clock = max t1 te,
              guardrail_task = Some g, llm_task = Some (cancel t1 l), final_heap = h\<rparr>"
            unfolding r_def g_def l_def
            by (rule node_rejected_returned [where check = check and generate = generate and h = h and state = state, OF fg [unfolded g_def] aw [unfolded l_def]])
          with fg fl show ?thesis by (rule that(6))
        next
          case (Raises e)
          with Some q have fl: "fate (cancel t1 l) = Some (te, Raises e)" by simp
          note aw = await_Some [OF fl, of t1]
          show ?thesis
          proof (cases "e = CancelledError")
            case True
            note fl' = fl [unfolded True] and aw' = aw [unfolded True]
            have "r = \<lparr>result = Some (Returns (blocked state)), clock = max t1 te,
                guardrail_task = Some g, llm_task = Some (cancel t1 l), final_heap = h\<rparr>"
              unfolding r_def g_def l_def
              by (rule node_rejected_cancelled [where check = check and generate = generate and h = h and state = state, OF fg [unfolded g_def] aw' [unfolded l_def]])
            with fg fl' show ?thesis by (rule that(4))
          next
            case False
            have "r = \<lparr>result = Some (Raises e), clock = max t1 te,
                guardrail_task = Some g, llm_task = Some (cancel t1 l), final_heap = h\<rparr>"
              unfolding r_def g_def l_def
              by (rule node_rejected_raised [where check = check and generate = generate and h = h and state = state, OF fg [unfolded g_def] aw [unfolded l_def] False])
            with fg fl False show ?thesis by (rule that(5))
          qed
        qed
      qed
    next
      case True
      with Some p Returns have fg: "fate g = Some (t1, Returns True)" by simp
      show ?thesis
      proof (cases "fate l")
        case None
        note aw = await_None [OF None, of t1]
        have "r = \<lparr>result = None, clock = t1, guardrail_task = Some g,
            llm_task = Some l, final_heap = h\<rparr>"
          unfolding r_def g_def l_def
          by (rule node_accepted_pending [where check = check and generate = generate and h = h and state = state, OF fg [unfolded g_def] aw [unfolded l_def]])
        with fg None show ?thesis by (rule that(7))
      next
        case (Some q)
        obtain te d where q: "q = (te, d)" by (cases q)
        show ?thesis
        proof (cases d)
          case (Returns a)
          with Some q have fl: "fate l = Some (te, Returns a)" by simp
          note aw = await_Some [OF fl, of t1]
          have "r = \<lparr>result = Some (Returns
                \<lparr>messages = length h, guardrail_passed = True, error = None\<rparr>),
              clock = max t1 te, guardrail_task = Some g, llm_task = Some l,
              final_heap = h @ [h ! messages state @ [HumanMessage a]]\<rparr>"
            unfolding r_def g_def l_def
            by (rule node_accepted_returned [where check = check and generate = generate and h = h and state = state, OF fg [unfolded g_def] aw [unfolded l_def]])
          with fg fl show ?thesis by (rule that(9))
        next
          case (Raises e)
          with Some q have fl: "fate l = Some (te, Raises e)" by simp
          note aw = await_Some [OF fl, of t1]
          have "r = \<lparr>result = Some (Raises e), clock = max t1 te,
              guardrail_task = Some g, llm_task = Some l, final_heap = h\<rparr>"
            unfolding r_def g_def l_def
            by (rule node_accepted_raised [where check = check and generate = generate and h = h and state = state, OF fg [unfolded g_def] aw [unfolded l_def]])
          with fg fl show ?thesis by (rule that(8))
        qed
      qed
    qed
  qed
qed

section \<open>Facts about tasks\<close>

lemma done_at_fate: "fate t = Some (te, c) \<Longrightarrow> done_at now t = (te \<le> now)"
  by (simp add: done_at_def)

lemma cancel_requested_or_done:
  "cancel_at (cancel now t) = Some now \<or> done_at now (cancel now t)"
  by (simp add: cancel_def)

text \<open>
  A call of \<^verbatim>\<open>cancel()\<close> after the task has ended changes nothing; neither does one at
  the very tick of its end, unless the body was still to pass a suspension at that tick.
\<close>

lemma run_coro_later: "run_coro now c b = Some (te, r) \<Longrightarrow> now \<le> te"
proof (induction b arbitrary: now c)
  case (Sleep d k h)
  show ?case
  proof (cases c)
    case None
    with Sleep.prems have "run_coro (now + d) None k = Some (te, r)" by simp
    from Sleep.IH(1) [OF this] show ?thesis by simp
  next
    case (Some tc)
    show ?thesis
    proof (cases "tc \<le> now \<or> tc < now + d")
      case True
      with Some Sleep.prems have "run_coro (max now tc) None h = Some (te, r)" by simp
      from Sleep.IH(2) [OF this] show ?thesis by simp
    next
      case False
      with Some Sleep.prems have "run_coro (now + d) (Some tc) k = Some (te, r)" by simp
      from Sleep.IH(1) [OF this] show ?thesis by simp
    qed
  qed
next
  case (Stall h)
  then obtain tc where c: "c = Some tc" by (cases c) simp_all
  with Stall.prems have "run_coro (max now tc) None h = Some (te, r)" by simp
  from Stall.IH [OF this] show ?case by simp
qed simp_all

lemma run_coro_cancel_after_end:
  "run_coro now None b = Some (te, r) \<Longrightarrow> te < tc \<Longrightarrow> run_coro now (Some tc) b = Some (te, r)"
proof (induction b arbitrary: now)
  case (Sleep d k h)
  from Sleep.prems(1) have k: "run_coro (now + d) None k = Some (te, r)" by simp
  from run_coro_later [OF k] Sleep.prems(2) have "\<not> (tc \<le> now \<or> tc < now + d)" by simp
  with Sleep.IH(1) [OF k Sleep.prems(2)] show ?case by simp
qed simp_all

lemma cancel_after_end:
  assumes "cancel_at t = None" and "fate t = Some (te, r)" and "te < now"
  shows "fate (cancel now t) = Some (te, r)"
  using assms run_coro_cancel_after_end [of "started t" "body t" te r now]
  by (simp add: fate_def cancel_def)

lemma cancel_at_end:
  "0 < d \<Longrightarrow> fate (cancel d (create_task 0 (Sleep d (Return v) h))) = Some (d, Returns v)"
  by (simp add: fate_def cancel_def create_task_def)

lemma cancel_at_next_suspension:
  "0 < d \<Longrightarrow>
   fate (cancel d (create_task 0 (Sleep d (Sleep 0 k (Raise e)) h))) = Some (d, Raises e)"
  by (simp add: fate_def cancel_def create_task_def)

lemma started_cancel: "started (cancel now t) = started t"
  by (simp add: cancel_def)

lemma body_cancel: "body (cancel now t) = body t"
  by (simp add: cancel_def)

text \<open>Unfolding everything evaluates the node on concrete collaborators.\<close>

lemmas run_defs =
  parallel_guardrail_node_def parallel_guardrail_node_with_def app_ainvoke_def
  await_def cancel_def done_at_def fate_def create_task_def getitem_last_def alloc_def
  check_guardrail_def generate_llm_response_def
  check_guardrail_passing_def check_guardrail_failing_def check_guardrail_slow_def
  check_guardrail_stalled_def
  generate_quickly_def generate_failing_def generate_ignoring_cancel_def
  request_X_def heap_X_def heap_empty_def blocked_def exposes_def Let_def

section \<open>Properties\<close>

text \<open>
  C1, as amended. When the guard returns \<^verbatim>\<open>False\<close>, no artifact is observable
  and the heap is untouched, whenever the producer finished. The node returns the
  blocked state when the producer's task ends cancelled or with a value (which is discarded);
  when that task ended with an exception of its own, the exception leaves the node
  instead; when it never ends, the node never returns. An artifact is observable
  exactly when the guard returned \<^verbatim>\<open>True\<close> and the producer's task returned it.
\<close>

theorem rejected_never_exposes_artifact:
  assumes "r = parallel_guardrail_node_with check generate h state"
  shows "(\<forall>gt t1. guardrail_task r = Some gt \<and> fate gt = Some (t1, Returns False) \<longrightarrow>
            final_heap r = h \<and> (\<forall>a. \<not> exposes h state r a) \<and>
            (\<exists>lt. llm_task r = Some lt \<and>
               result r =
                 (case fate lt of
                    None \<Rightarrow> None
                  | Some (t2, Returns a) \<Rightarrow> Some (Returns (blocked state))
                  | Some (t2, Raises e) \<Rightarrow>
                      if e = CancelledError then Some (Returns (blocked state))
                      else Some (Raises e)))) \<and>
         (\<forall>a. exposes h state r a \<longleftrightarrow>
            (\<exists>gt lt t1 t2. guardrail_task r = Some gt \<and> fate gt = Some (t1, Returns True) \<and>
               llm_task r = Some lt \<and> fate lt = Some (t2, Returns a)))"
  using assms
  by (cases rule: node_cases [where check = check and generate = generate and h = h and state = state])
     (simp_all add: exposes_def blocked_def)

theorem rejected_never_exposes_artifact_witness:
  "fate (create_task 0 (check_guardrail ''X'')) = Some (1, Returns False) \<and>
   fate \<lparr>body = generate_ignoring_cancel [HumanMessage ''X''], started = 0, cancel_at = Some 1\<rparr>
     = Some (3, Returns ''late answer'') \<and>
   result (parallel_guardrail_node_with check_guardrail generate_ignoring_cancel heap_X request_X)
     = Some (Returns (blocked request_X)) \<and>
   final_heap (parallel_guardrail_node_with check_guardrail generate_ignoring_cancel heap_X request_X)
     = heap_X \<and>
   \<not> exposes heap_X request_X
     (parallel_guardrail_node_with check_guardrail generate_ignoring_cancel heap_X request_X)
     ''late answer''"
proof -
  let ?r = "parallel_guardrail_node_with check_guardrail generate_ignoring_cancel heap_X request_X"
  let ?lt = "\<lparr>body = generate_ignoring_cancel [HumanMessage ''X''], started = 0,
    cancel_at = Some 1\<rparr>"
  have g: "guardrail_task ?r = Some (create_task 0 (check_guardrail ''X''))"
    by (simp add: run_defs)
  have fg: "fate (create_task 0 (check_guardrail ''X'')) = Some (1, Returns False)"
    by (simp add: run_defs)
  have l: "llm_task ?r = Some ?lt"
    by (simp add: run_defs)
  have fl: "fate ?lt = Some (3, Returns ''late answer'')"
    by (simp add: run_defs)
  from rejected_never_exposes_artifact [OF refl, where check = check_guardrail
      and generate = generate_ignoring_cancel and h = heap_X and state = request_X] g fg
  have "final_heap ?r = heap_X \<and> (\<forall>a. \<not> exposes heap_X request_X ?r a) \<and>
    (\<exists>lt. llm_task ?r = Some lt \<and>
       result ?r =
         (case fate lt of
            None \<Rightarrow> None
          | Some (t2, Returns a) \<Rightarrow> Some (Returns (blocked request_X))
          | Some (t2, Raises e) \<Rightarrow>
              if e = CancelledError then Some (Returns (blocked request_X))
              else Some (Raises e)))"
    by blast
  with l fl fg show ?thesis by auto
qed

text \<open>
  The shipped guard rejects after one second; a producer that failed at its first
  step is already done then, \<^verbatim>\<open>cancel()\<close> has no effect, and awaiting it raises its
  exception, which \<^verbatim>\<open>except asyncio.CancelledError\<close> does not catch.
\<close>

theorem rejected_with_failed_producer_counterexample:
  "fate (create_task 0 (check_guardrail ''X'')) = Some (1, Returns False) \<and>
   result (parallel_guardrail_node_with check_guardrail generate_failing heap_X request_X)
     = Some (Raises (Exception ''model unavailable'')) \<and>
   result (parallel_guardrail_node_with check_guardrail generate_failing heap_X request_X)
     \<noteq> Some (Returns (blocked request_X))"
  by (simp add: run_defs)



text \<open>
  C3. When the guard returns \<^verbatim>\<open>False\<close> at time \<open>t1\<close>, the node calls \<^verbatim>\<open>cancel()\<close> on
  the producer's task at \<open>t1\<close> (the call has no effect on a task that has already
  ended), and it does not end before that task is done: whenever the node ends, the
  task has reached a terminal state by then, and when the task never ends the node
  never returns.
\<close>

theorem rejection_confirms_producer_terminal:
  assumes "r = parallel_guardrail_node_with check generate h state"
    and "guardrail_task r = Some gt" and "fate gt = Some (t1, Returns False)"
  shows "\<exists>lt. llm_task r = Some lt \<and>
           lt = cancel t1 (create_task 0 (generate (h ! messages state))) \<and>
           (cancel_at lt = Some t1 \<or> done_at t1 lt) \<and>
           t1 \<le> clock r \<and>
           (result r \<noteq> None \<longrightarrow> done_at (clock r) lt) \<and>
           (fate lt = None \<longrightarrow> result r = None)"
  using assms cancel_requested_or_done [of t1 "create_task 0 (generate (h ! messages state))"]
  by (cases rule: node_cases [where check = check and generate = generate and h = h and state = state])
     (simp_all add: done_at_fate)

theorem rejection_confirms_producer_terminal_witness:
  "fate (create_task 0 (check_guardrail ''X'')) = Some (1, Returns False) \<and>
   llm_task (parallel_guardrail_node heap_X request_X)
     = Some \<lparr>body = generate_llm_response [HumanMessage ''X''], started = 0, cancel_at = Some 1\<rparr> \<and>
   fate \<lparr>body = generate_llm_response [HumanMessage ''X''], started = 0, cancel_at = Some 1\<rparr>
     = Some (1, Raises CancelledError) \<and>
   clock (parallel_guardrail_node heap_X request_X) = 1 \<and>
   result (parallel_guardrail_node heap_X request_X) = Some (Returns (blocked request_X)) \<and>
   done_at (clock (parallel_guardrail_node heap_X request_X))
     \<lparr>body = generate_llm_response [HumanMessage ''X''], started = 0, cancel_at = Some 1\<rparr>"
proof -
  let ?r = "parallel_guardrail_node heap_X request_X"
  let ?lt = "\<lparr>body = generate_llm_response [HumanMessage ''X''], started = 0,
    cancel_at = Some 1\<rparr>"
  have r: "?r = parallel_guardrail_node_with check_guardrail generate_llm_response heap_X request_X"
    by (simp add: parallel_guardrail_node_def)
  have g: "guardrail_task ?r = Some (create_task 0 (check_guardrail ''X''))"
    by (simp add: run_defs)
  have fg: "fate (create_task 0 (check_guardrail ''X'')) = Some (1, Returns False)"
    by (simp add: run_defs)
  have l: "llm_task ?r = Some ?lt"
    by (simp add: run_defs)
  have fl: "fate ?lt = Some (1, Raises CancelledError)"
    by (simp add: run_defs)
  have c: "clock ?r = 1" and res: "result ?r = Some (Returns (blocked request_X))"
    by (simp_all add: run_defs)
  from rejection_confirms_producer_terminal [OF r g fg] l res
  have "done_at (clock ?r) ?lt" by auto
  with fg l fl c res show ?thesis by simp
qed

text \<open>
  C4, as amended. When the guard's task ends with an exception, that exception leaves
  the node uncaught at the time the guard failed: the node returns no state, writes
  nothing, and leaves the producer's task uncancelled.
\<close>

theorem guard_exception_propagates:
  assumes "r = parallel_guardrail_node_with check generate h state"
    and "guardrail_task r = Some gt" and "fate gt = Some (t1, Raises e)"
  shows "result r = Some (Raises e) \<and> clock r = t1 \<and> final_heap r = h \<and>
         llm_task r = Some (create_task 0 (generate (h ! messages state))) \<and>
         (\<exists>lt. llm_task r = Some lt \<and> cancel_at lt = None)"
  using assms
  by (cases rule: node_cases [where check = check and generate = generate and h = h and state = state])
     (simp_all add: create_task_def)

theorem guard_exception_propagates_witness:
  "fate (create_task 0 (check_guardrail_failing ''X''))
     = Some (1, Raises (Exception ''policy service unavailable'')) \<and>
   result (parallel_guardrail_node_with check_guardrail_failing generate_quickly heap_X request_X)
     = Some (Raises (Exception ''policy service unavailable'')) \<and>
   clock (parallel_guardrail_node_with check_guardrail_failing generate_quickly heap_X request_X) = 1 \<and>
   llm_task (parallel_guardrail_node_with check_guardrail_failing generate_quickly heap_X request_X)
     = Some (create_task 0 (generate_quickly [HumanMessage ''X'']))"
proof -
  let ?r = "parallel_guardrail_node_with check_guardrail_failing generate_quickly heap_X request_X"
  have g: "guardrail_task ?r = Some (create_task 0 (check_guardrail_failing ''X''))"
    by (simp add: run_defs)
  have fg: "fate (create_task 0 (check_guardrail_failing ''X''))
      = Some (1, Raises (Exception ''policy service unavailable''))"
    by (simp add: run_defs)
  have "heap_X ! messages request_X = [HumanMessage ''X'']"
    by (simp add: run_defs)
  with guard_exception_propagates [OF refl g fg] fg show ?thesis
    by simp
qed

text \<open>
  A guard that raises after one second, with the shipped producer: the exception
  leaves the node at time 1, and the producer's task has no cancellation request; it is
  not done then, and left alone it finishes at time 30.
\<close>

theorem guard_failure_escapes_counterexample:
  "fate (create_task 0 (check_guardrail_failing ''X''))
     = Some (1, Raises (Exception ''policy service unavailable'')) \<and>
   result (parallel_guardrail_node_with check_guardrail_failing generate_llm_response heap_X request_X)
     = Some (Raises (Exception ''policy service unavailable'')) \<and>
   clock (parallel_guardrail_node_with check_guardrail_failing generate_llm_response heap_X request_X)
     = 1 \<and>
   llm_task (parallel_guardrail_node_with check_guardrail_failing generate_llm_response heap_X request_X)
     = Some \<lparr>body = generate_llm_response [HumanMessage ''X''], started = 0, cancel_at = None\<rparr> \<and>
   \<not> done_at 1 \<lparr>body = generate_llm_response [HumanMessage ''X''], started = 0, cancel_at = None\<rparr> \<and>
   fate \<lparr>body = generate_llm_response [HumanMessage ''X''], started = 0, cancel_at = None\<rparr>
     = Some (30, Returns ''AI Response: Here is a detailed answer...'')"
  by (simp add: run_defs)

text \<open>
  C5, as amended. When the guard returns \<^verbatim>\<open>True\<close> and the producer's task ends with an
  exception, that exception leaves the node uncaught once both tasks are done: the
  node returns no state and writes nothing.
\<close>

theorem accepted_producer_exception_propagates:
  assumes "r = parallel_guardrail_node_with check generate h state"
    and "guardrail_task r = Some gt" and "fate gt = Some (t1, Returns True)"
    and "llm_task r = Some lt" and "fate lt = Some (t2, Raises e)"
  shows "result r = Some (Raises e) \<and> clock r = max t1 t2 \<and> final_heap r = h"
  using assms
  by (cases rule: node_cases [where check = check and generate = generate and h = h and state = state])
     simp_all

theorem accepted_producer_exception_propagates_witness:
  "fate (create_task 0 (check_guardrail_passing ''X'')) = Some (1, Returns True) \<and>
   fate (create_task 0 (generate_failing [HumanMessage ''X'']))
     = Some (0, Raises (Exception ''model unavailable'')) \<and>
   result (parallel_guardrail_node_with check_guardrail_passing generate_failing heap_X request_X)
     = Some (Raises (Exception ''model unavailable'')) \<and>
   clock (parallel_guardrail_node_with check_guardrail_passing generate_failing heap_X request_X) = 1 \<and>
   final_heap (parallel_guardrail_node_with check_guardrail_passing generate_failing heap_X request_X)
     = heap_X"
proof -
  let ?r = "parallel_guardrail_node_with check_guardrail_passing generate_failing heap_X request_X"
  have g: "guardrail_task ?r = Some (create_task 0 (check_guardrail_passing ''X''))"
    by (simp add: run_defs)
  have fg: "fate (create_task 0 (check_guardrail_passing ''X'')) = Some (1, Returns True)"
    by (simp add: run_defs)
  have l: "llm_task ?r = Some (create_task 0 (generate_failing [HumanMessage ''X'']))"
    by (simp add: run_defs)
  have fl: "fate (create_task 0 (generate_failing [HumanMessage ''X'']))
      = Some (0, Raises (Exception ''model unavailable''))"
    by (simp add: run_defs)
  from accepted_producer_exception_propagates [OF refl g fg l fl] fg fl show ?thesis
    by simp
qed

text \<open>The guard passes and the producer has failed: its exception leaves the node.\<close>

theorem producer_failure_escapes_counterexample:
  "fate (create_task 0 (check_guardrail_passing ''X'')) = Some (1, Returns True) \<and>
   result (parallel_guardrail_node_with check_guardrail_passing generate_failing heap_X request_X)
     = Some (Raises (Exception ''model unavailable''))"
  by (simp add: run_defs)

text \<open>
  C6, as amended. The node takes the state and no options, so the timeouts a caller
  configures do not reach it and change nothing, and it enforces no deadline. The
  guard's task is the task it created, never cancelled, and the node waits for it
  however long it takes: while that task has no result the node does not end and the
  producer's task stays uncancelled. After a \<^verbatim>\<open>True\<close> verdict the producer's task is
  the uncancelled task it created and is awaited however long it takes: the node
  returns the completed state at the later of the two completion times, and never
  returns when the producer never ends. The only failure a returned state reports is
  the rejection.
\<close>

theorem no_deadline_on_guard_or_producer:
  assumes "r = coordinator_run opts check generate h state"
    and "g = create_task 0 (check (user_message_of (h ! messages state)))"
    and "l = create_task 0 (generate (h ! messages state))"
  shows "guardrail_task r = Some g \<and> cancel_at g = None \<and> cancel_at l = None \<and>
         (\<forall>opts'. coordinator_run opts' check generate h state = r) \<and>
         (fate g = None \<longrightarrow> result r = None \<and> llm_task r = Some l) \<and>
         (\<forall>t1 t2 a. fate g = Some (t1, Returns True) \<and> fate l = Some (t2, Returns a) \<longrightarrow>
            llm_task r = Some l \<and>
            result r = Some (Returns
              \<lparr>messages = length h, guardrail_passed = True, error = None\<rparr>) \<and>
            clock r = max t1 t2) \<and>
         (\<forall>t1. fate g = Some (t1, Returns True) \<and> fate l = None \<longrightarrow>
            llm_task r = Some l \<and> result r = None) \<and>
         (\<forall>s. result r = Some (Returns s) \<longrightarrow>
            s = blocked state \<or> (guardrail_passed s \<and> error s = None))"
proof -
  have r: "r = parallel_guardrail_node_with check generate h state"
    using assms(1) by (simp add: coordinator_run_def)
  have 1: "cancel_at g = None \<and> cancel_at l = None"
    using assms(2,3) by (simp add: create_task_def)
  have 2: "\<forall>opts'. coordinator_run opts' check generate h state = r"
    using r by (simp add: coordinator_run_def)
  have 3: "guardrail_task r = Some g \<and>
      (fate g = None \<longrightarrow> result r = None \<and> llm_task r = Some l) \<and>
      (\<forall>t1 t2 a. fate g = Some (t1, Returns True) \<and> fate l = Some (t2, Returns a) \<longrightarrow>
         llm_task r = Some l \<and>
         result r = Some (Returns
           \<lparr>messages = length h, guardrail_passed = True, error = None\<rparr>) \<and>
         clock r = max t1 t2) \<and>
      (\<forall>t1. fate g = Some (t1, Returns True) \<and> fate l = None \<longrightarrow>
         llm_task r = Some l \<and> result r = None) \<and>
      (\<forall>s. result r = Some (Returns s) \<longrightarrow>
         s = blocked state \<or> (guardrail_passed s \<and> error s = None))"
    using r assms(2,3)
    by (cases rule: node_cases [where check = check and generate = generate and h = h and state = state])
       simp_all
  from 1 2 3 show ?thesis by blast
qed

theorem no_deadline_on_guard_or_producer_witness:
  "exceeds (fate (create_task 0 (check_guardrail_stalled ''X''))) (guard_timeout options_X) \<and>
   fate (create_task 0 (check_guardrail_stalled ''X'')) = None \<and>
   guardrail_task (coordinator_run options_X check_guardrail_stalled generate_llm_response
     heap_X request_X) = Some (create_task 0 (check_guardrail_stalled ''X'')) \<and>
   result (coordinator_run options_X check_guardrail_stalled generate_llm_response
     heap_X request_X) = None \<and>
   llm_task (coordinator_run options_X check_guardrail_stalled generate_llm_response
     heap_X request_X) = Some (create_task 0 (generate_llm_response [HumanMessage ''X''])) \<and>
   cancel_at (create_task 0 (generate_llm_response [HumanMessage ''X''])) = None"
proof -
  let ?r = "coordinator_run options_X check_guardrail_stalled generate_llm_response
    heap_X request_X"
  have m: "heap_X ! messages request_X = [HumanMessage ''X'']"
    by (simp add: run_defs)
  have u: "user_message_of [HumanMessage ''X''] = ''X''"
    by (simp add: user_message_of_def)
  have fg: "fate (create_task 0 (check_guardrail_stalled ''X'')) = None"
    by (simp add: run_defs)
  have x: "exceeds (fate (create_task 0 (check_guardrail_stalled ''X''))) (guard_timeout options_X)"
    by (simp add: fg exceeds_def options_X_def)
  note n = no_deadline_on_guard_or_producer [OF refl refl refl, where opts = options_X
      and check = check_guardrail_stalled and generate = generate_llm_response
      and h = heap_X and state = request_X, unfolded m u]
  from n fg
  have "guardrail_task ?r = Some (create_task 0 (check_guardrail_stalled ''X'')) \<and>
    result ?r = None \<and>
    llm_task ?r = Some (create_task 0 (generate_llm_response [HumanMessage ''X''])) \<and>
    cancel_at (create_task 0 (generate_llm_response [HumanMessage ''X''])) = None"
    by blast
  with fg x show ?thesis by simp
qed

text \<open>
  Both timeouts are configured at five ticks. A guard that answers \<^verbatim>\<open>True\<close> after a
  million ticks exceeds the guard's: it is awaited to the end, the run completes at
  that time, no failure is reported and the producer was not cancelled. After the
  passing guard of one tick the shipped producer, thirty ticks, exceeds the
  producer's: it is awaited to the end and its response is returned.
\<close>

theorem configured_timeouts_ignored_counterexample:
  "guard_timeout options_X = Some 5 \<and> producer_timeout options_X = Some 5 \<and>
   fate (create_task 0 (check_guardrail_slow ''X'')) = Some (1000000, Returns True) \<and>
   exceeds (fate (create_task 0 (check_guardrail_slow ''X''))) (guard_timeout options_X) \<and>
   result (coordinator_run options_X check_guardrail_slow generate_quickly heap_X request_X)
     = Some (Returns \<lparr>messages = 1, guardrail_passed = True, error = None\<rparr>) \<and>
   clock (coordinator_run options_X check_guardrail_slow generate_quickly heap_X request_X)
     = 1000000 \<and>
   llm_task (coordinator_run options_X check_guardrail_slow generate_quickly heap_X request_X)
     = Some \<lparr>body = generate_quickly [HumanMessage ''X''], started = 0, cancel_at = None\<rparr> \<and>
   fate (create_task 0 (check_guardrail_passing ''X'')) = Some (1, Returns True) \<and>
   fate (create_task 0 (generate_llm_response [HumanMessage ''X'']))
     = Some (30, Returns ''AI Response: Here is a detailed answer...'') \<and>
   exceeds (fate (create_task 0 (generate_llm_response [HumanMessage ''X''])))
     (producer_timeout options_X) \<and>
   result (coordinator_run options_X check_guardrail_passing generate_llm_response
     heap_X request_X)
     = Some (Returns \<lparr>messages = 1, guardrail_passed = True, error = None\<rparr>) \<and>
   clock (coordinator_run options_X check_guardrail_passing generate_llm_response
     heap_X request_X) = 30 \<and>
   final_heap (coordinator_run options_X check_guardrail_passing generate_llm_response
     heap_X request_X)
     = [[HumanMessage ''X''],
        [HumanMessage ''X'', HumanMessage ''AI Response: Here is a detailed answer...'']]"
  by (simp add: run_defs coordinator_run_def options_X_def exceeds_def)

text \<open>
  C7. Both tasks are created at the time of the call, the guard's on the request's
  text and the producer's on the request's messages, and the node then waits for the
  guard alone: while the guard has no result the node does not end, whatever the
  producer has done, and the node never ends before the guard. The two tasks run at the
  same time: when both succeed the node ends at the later of the two completion times.
\<close>

theorem tasks_start_together_guard_awaited_first:
  assumes "r = parallel_guardrail_node_with check generate h state"
  shows "\<exists>gt lt. guardrail_task r = Some gt \<and> llm_task r = Some lt \<and>
           body gt = check (user_message_of (h ! messages state)) \<and>
           body lt = generate (h ! messages state) \<and>
           started gt = 0 \<and> started lt = 0 \<and>
           (fate gt = None \<longrightarrow> result r = None \<and> cancel_at lt = None) \<and>
           (\<forall>t1 c. fate gt = Some (t1, c) \<longrightarrow> t1 \<le> clock r) \<and>
           (\<forall>t1 e. fate gt = Some (t1, Raises e) \<longrightarrow> clock r = t1 \<and> cancel_at lt = None) \<and>
           (\<forall>t1 t2 a. fate gt = Some (t1, Returns True) \<and> fate lt = Some (t2, Returns a) \<longrightarrow>
              clock r = max t1 t2)"
  using assms
  by (cases rule: node_cases [where check = check and generate = generate and h = h and state = state])
     (simp_all add: started_cancel body_cancel, simp_all add: create_task_def)

theorem tasks_start_together_guard_awaited_first_witness:
  "guardrail_task (parallel_guardrail_node_with check_guardrail_passing generate_quickly
     heap_X request_X) = Some \<lparr>body = check_guardrail_passing ''X'', started = 0, cancel_at = None\<rparr> \<and>
   llm_task (parallel_guardrail_node_with check_guardrail_passing generate_quickly
     heap_X request_X) = Some \<lparr>body = generate_quickly [HumanMessage ''X''], started = 0, cancel_at = None\<rparr> \<and>
   fate \<lparr>body = check_guardrail_passing ''X'', started = 0, cancel_at = None\<rparr>
     = Some (1, Returns True) \<and>
   fate \<lparr>body = generate_quickly [HumanMessage ''X''], started = 0, cancel_at = None\<rparr>
     = Some (2, Returns ''ok'') \<and>
   clock (parallel_guardrail_node_with check_guardrail_passing generate_quickly
     heap_X request_X) = 2"
proof -
  let ?r = "parallel_guardrail_node_with check_guardrail_passing generate_quickly heap_X request_X"
  let ?gt = "\<lparr>body = check_guardrail_passing ''X'', started = 0, cancel_at = None\<rparr>"
  let ?lt = "\<lparr>body = generate_quickly [HumanMessage ''X''], started = 0, cancel_at = None\<rparr>"
  have g: "guardrail_task ?r = Some ?gt"
    by (simp add: run_defs)
  have l: "llm_task ?r = Some ?lt"
    by (simp add: run_defs)
  have fg: "fate ?gt = Some (1, Returns True)"
    by (simp add: run_defs)
  have fl: "fate ?lt = Some (2, Returns ''ok'')"
    by (simp add: run_defs)
  from tasks_start_together_guard_awaited_first [OF refl, where check = check_guardrail_passing
      and generate = generate_quickly and h = heap_X and state = request_X] g l fg fl
  have "clock ?r = max 1 2" by auto
  with g l fg fl show ?thesis by simp
qed

text \<open>
  C8. On an empty message list the subscript \<^verbatim>\<open>[-1]\<close> would raise \<^verbatim>\<open>IndexError\<close>, but the
  node does not evaluate it: the guard is started on the empty string and the producer
  on the empty list, both at the time of the call, and the node ends as the two tasks
  decide. As shipped it returns the blocked state; with a guard that returns \<^verbatim>\<open>True\<close> and
  a producer that returns an artifact it returns a new list holding that one message.
\<close>

theorem empty_messages_handled:
  assumes "h ! messages state = []"
  shows "getitem_last (h ! messages state) = Inl IndexError \<and>
         guardrail_task (parallel_guardrail_node_with check generate h state)
           = Some (create_task 0 (check '''')) \<and>
         (\<exists>lt. llm_task (parallel_guardrail_node_with check generate h state) = Some lt \<and>
            body lt = generate [] \<and> started lt = 0) \<and>
         (\<forall>t1 t2 a. fate (create_task 0 (check '''')) = Some (t1, Returns True) \<and>
            fate (create_task 0 (generate [])) = Some (t2, Returns a) \<longrightarrow>
            result (parallel_guardrail_node_with check generate h state)
              = Some (Returns \<lparr>messages = length h, guardrail_passed = True, error = None\<rparr>) \<and>
            final_heap (parallel_guardrail_node_with check generate h state)
              = h @ [[HumanMessage a]]) \<and>
         result (parallel_guardrail_node h state) = Some (Returns (blocked state)) \<and>
         final_heap (parallel_guardrail_node h state) = h"
proof -
  have um: "user_message_of (h ! messages state) = ''''"
    using assms by (simp add: user_message_of_def)
  have 1: "getitem_last (h ! messages state) = Inl IndexError"
    using assms by (simp add: getitem_last_def)
  have 2: "guardrail_task (parallel_guardrail_node_with check generate h state)
      = Some (create_task 0 (check ''''))"
    using um assms
    by (cases rule: node_cases [where check = check and generate = generate and h = h and state = state])
       simp_all
  have 3: "\<exists>lt. llm_task (parallel_guardrail_node_with check generate h state) = Some lt \<and>
      body lt = generate [] \<and> started lt = 0"
    using um assms
    by (cases rule: node_cases [where check = check and generate = generate and h = h and state = state])
       (simp_all add: started_cancel body_cancel, simp_all add: create_task_def)
  have 4: "\<forall>t1 t2 a. fate (create_task 0 (check '''')) = Some (t1, Returns True) \<and>
      fate (create_task 0 (generate [])) = Some (t2, Returns a) \<longrightarrow>
      result (parallel_guardrail_node_with check generate h state)
        = Some (Returns \<lparr>messages = length h, guardrail_passed = True, error = None\<rparr>) \<and>
      final_heap (parallel_guardrail_node_with check generate h state) = h @ [[HumanMessage a]]"
    using um assms
    by (cases rule: node_cases [where check = check and generate = generate and h = h and state = state])
       simp_all
  have fg: "fate (create_task 0 (check_guardrail s)) = Some (1, Returns False)" for s
    by (simp add: fate_def create_task_def check_guardrail_def)
  have 5: "result (parallel_guardrail_node h state) = Some (Returns (blocked state)) \<and>
      final_heap (parallel_guardrail_node h state) = h"
    unfolding parallel_guardrail_node_def
    using fg
    by (cases rule: node_cases [where check = check_guardrail and generate = generate_llm_response
          and h = h and state = state])
       (simp_all add: fate_def cancel_def done_at_def create_task_def generate_llm_response_def)
  from 1 2 3 4 5 show ?thesis by blast
qed

theorem empty_messages_handled_witness:
  "heap_empty ! messages request_X = [] \<and>
   getitem_last (heap_empty ! messages request_X) = Inl IndexError \<and>
   guardrail_task (parallel_guardrail_node heap_empty request_X)
     = Some (create_task 0 (check_guardrail '''')) \<and>
   result (parallel_guardrail_node heap_empty request_X) = Some (Returns (blocked request_X)) \<and>
   final_heap (parallel_guardrail_node heap_empty request_X) = heap_empty"
proof -
  have e: "heap_empty ! messages request_X = []"
    by (simp add: run_defs)
  from empty_messages_handled [OF e, where check = check_guardrail
      and generate = generate_llm_response] e
  show ?thesis
    by (simp add: parallel_guardrail_node_def)
qed



text \<open>
  C10. As shipped, the guard's task returns \<^verbatim>\<open>False\<close> one second after it is started,
  whatever the text it is given, so every invocation of the compiled graph takes the
  rejection branch: it returns, one second after the call, the state with the input
  message list, \<^verbatim>\<open>guardrail_passed = False\<close> and the content-policy error, and the producer's
  task ends cancelled.
\<close>

theorem shipped_graph_always_blocks:
  "fate (create_task now (check_guardrail user_message)) = Some (now + 1, Returns False) \<and>
   result (app_ainvoke h input) =
     Some (Returns \<lparr>messages = messages input, guardrail_passed = False,
       error = Some ''Request blocked due to content policy violation''\<rparr>) \<and>
   clock (app_ainvoke h input) = 1 \<and>
   final_heap (app_ainvoke h input) = h \<and>
   llm_task (app_ainvoke h input)
     = Some \<lparr>body = generate_llm_response (h ! messages input), started = 0, cancel_at = Some 1\<rparr> \<and>
   fate \<lparr>body = generate_llm_response (h ! messages input), started = 0, cancel_at = Some 1\<rparr>
     = Some (1, Raises CancelledError)"
  by (simp add: app_ainvoke_def parallel_guardrail_node_def parallel_guardrail_node_with_def
      await_def cancel_def done_at_def fate_def create_task_def check_guardrail_def
      generate_llm_response_def getitem_last_def Let_def)

end
